theory Spec2Isabelle
  imports Main "HOL-Library.Sublist"
begin

section \<open>The ledger store\<close>

text \<open>
  The five tables created by \<open>init_db\<close>. A table is the list of its rows in insertion
  order; \<open>SELECT\<close> filters it, \<open>UPDATE\<close> maps over it, \<open>INSERT\<close> appends, \<open>DELETE\<close>
  filters. The columns \<open>role_reward_id\<close>, \<open>daily_flag\<close>, \<open>type\<close>, \<open>task_link\<close> and
  \<open>announcement_message_id\<close> of \<open>tasks\<close> only feed labels and announcements and are left
  out. Timestamps are integers, in microseconds. The three \<open>SERIAL\<close> columns draw their
  values from the sequences \<open>task_seq\<close>, \<open>submission_seq\<close>, \<open>withdrawal_seq\<close>.
  \<open>INTEGER\<close> columns are modelled as \<open>int\<close>; a statement that would store a value
  outside the 32-bit range is refused and changes nothing. A statement that fails for a
  reason outside the program (a lost connection) is a failed step of the flow that
  issues it.
\<close>

record user_row =
  u_user_id :: int
  u_points :: int

record task_row =
  t_id :: int
  t_title :: string
  t_points :: int
  t_max_submissions :: int
  t_archived :: int

record submission_row =
  s_id :: int
  s_user_id :: int
  s_task_id :: int
  s_proof :: string
  s_status :: string
  s_created_at :: int
  s_reviewed_at :: "int option"

record withdrawal_row =
  w_id :: int
  w_user_id :: int
  w_bank_name :: string
  w_account_number :: string
  w_account_name :: string
  w_points :: int
  w_status :: string

record db =
  users :: "user_row list"
  tasks :: "task_row list"
  submissions :: "submission_row list"
  withdrawals :: "withdrawal_row list"
  banned_users :: "int list"
  task_seq :: int
  submission_seq :: int
  withdrawal_seq :: int

definition empty_db :: db where
  "empty_db = \<lparr>users = [], tasks = [], submissions = [], withdrawals = [],
     banned_users = [], task_seq = 1, submission_seq = 1, withdrawal_seq = 1\<rparr>"

subsection \<open>Helpers\<close>

text \<open>\<open>INSERT INTO users (user_id, points) VALUES ($1, 0) ON CONFLICT (user_id) DO NOTHING\<close>\<close>

definition ensure_user :: "db \<Rightarrow> int \<Rightarrow> db" where
  "ensure_user d uid =
     (if uid \<in> set (map u_user_id (users d)) then d
      else d\<lparr>users := users d @ [\<lparr>u_user_id = uid, u_points = 0\<rparr>]\<rparr>)"

text \<open>\<open>row = fetchrow("SELECT points FROM users WHERE user_id=$1"); row['points'] if row else 0\<close>\<close>

definition get_user_points :: "db \<Rightarrow> int \<Rightarrow> int" where
  "get_user_points d uid =
     (case find (\<lambda>r. u_user_id r = uid) (users d) of
        Some row \<Rightarrow> u_points row
      | None \<Rightarrow> 0)"

definition is_banned :: "db \<Rightarrow> int \<Rightarrow> bool" where
  "is_banned d uid = (find (\<lambda>b. b = uid) (banned_users d) \<noteq> None)"

text \<open>The list comprehension \<open>[m for m in milestones if old_pts < m <= new_pts]\<close>, as the
  loop it abbreviates.\<close>

primrec next_milestones_reached :: "int \<Rightarrow> int \<Rightarrow> int list \<Rightarrow> int list" where
  "next_milestones_reached old_pts new_pts [] = []"
| "next_milestones_reached old_pts new_pts (m # milestones) =
     (if old_pts < m \<and> m \<le> new_pts
      then m # next_milestones_reached old_pts new_pts milestones
      else next_milestones_reached old_pts new_pts milestones)"

definition MILESTONES :: "int list" where
  "MILESTONES = [500, 1000, 1500, 2000]"

text \<open>\<open>get_rank\<close> returns a label (an emoji and a name); the datatype keeps the name.\<close>

datatype rank = Master | Pro | Adventurer | Explorer | Newbie

definition get_rank :: "int \<Rightarrow> rank" where
  "get_rank pts =
     (if pts \<ge> 2000 then Master
      else if pts \<ge> 1500 then Pro
      else if pts \<ge> 1000 then Adventurer
      else if pts \<ge> 500 then Explorer
      else Newbie)"

subsection \<open>Strings\<close>

text \<open>
  The content of a message is kept as a list of characters; \<open>str.strip()\<close> removes
  leading and trailing white space and \<open>str.startswith\<close> compares a prefix. The builtin
  \<open>int(text)\<close> is not modelled: a message event carries, next to its content, what
  \<open>int\<close> returns on it, \<open>None\<close> standing for \<open>ValueError\<close>.
\<close>

definition is_space :: "char \<Rightarrow> bool" where
  "is_space c = (of_char c \<in> {9, 10, 11, 12, 13, 28, 29, 30, 31, 32, 133, 160 :: nat})"

definition strip :: "string \<Rightarrow> string" where
  "strip s = rev (dropWhile is_space (rev (dropWhile is_space s)))"

definition startswith :: "string \<Rightarrow> string \<Rightarrow> bool" where
  "startswith s pre = (take (length pre) s = pre)"

subsection \<open>Rows in no particular order\<close>

text \<open>
  \<open>INTEGER\<close> columns hold 32-bit values; PostgreSQL refuses a statement that would store
  any other. A \<open>SELECT\<close> without \<open>ORDER BY\<close> returns its rows in the order of the heap,
  which the program does not control: a step that reads several rows is given the order
  as a list of ids (\<open>heap\<close>: the rows with these ids come first, in this order, the others
  after them), and a step that takes one row of several with \<open>fetchrow\<close> is given the
  position of the row it gets (\<open>pick\<close>).
\<close>

definition int4 :: "int \<Rightarrow> bool" where
  "int4 x = (- 2147483648 \<le> x \<and> x \<le> 2147483647)"

definition heap_order :: "('a \<Rightarrow> int) \<Rightarrow> int list \<Rightarrow> 'a list \<Rightarrow> 'a list" where
  "heap_order key heap rows =
     concat (map (\<lambda>i. filter (\<lambda>r. key r = i) rows) (remdups heap))
     @ filter (\<lambda>r. key r \<notin> set heap) rows"

definition fetchrow :: "nat \<Rightarrow> 'a list \<Rightarrow> 'a option" where
  "fetchrow pick rows = (if rows = [] then None else Some (rows ! (pick mod length rows)))"

subsection \<open>The statements the flows issue\<close>

text \<open>\<open>SELECT COUNT(*) FROM submissions WHERE task_id=$1 AND status!='rejected'\<close>\<close>

definition count_done :: "db \<Rightarrow> int \<Rightarrow> int" where
  "count_done d tid =
     int (length (filter (\<lambda>r. s_task_id r = tid \<and> s_status r \<noteq> ''rejected'') (submissions d)))"

text \<open>\<open>UPDATE tasks SET archived=1 WHERE id=$1\<close>\<close>

definition archive_task :: "db \<Rightarrow> int \<Rightarrow> db" where
  "archive_task d tid =
     d\<lparr>tasks := map (\<lambda>t. if t_id t = tid then t\<lparr>t_archived := 1\<rparr> else t) (tasks d)\<rparr>"

text \<open>\<open>SELECT id, status FROM submissions WHERE user_id=$1 AND task_id=$2\<close>\<close>

definition existing_submission :: "db \<Rightarrow> int \<Rightarrow> int \<Rightarrow> nat \<Rightarrow> submission_row option" where
  "existing_submission d uid tid pick =
     fetchrow pick (filter (\<lambda>r. s_user_id r = uid \<and> s_task_id r = tid) (submissions d))"

text \<open>\<open>INSERT INTO submissions (user_id, task_id, proof) VALUES ($1, $2, $3)\<close>\<close>

definition insert_submission :: "db \<Rightarrow> int \<Rightarrow> int \<Rightarrow> string \<Rightarrow> int \<Rightarrow> db" where
  "insert_submission d uid tid proof now =
     d\<lparr>submissions := submissions d @
          [\<lparr>s_id = submission_seq d, s_user_id = uid, s_task_id = tid, s_proof = proof,
            s_status = ''pending'', s_created_at = now, s_reviewed_at = None\<rparr>],
       submission_seq := submission_seq d + 1\<rparr>"

text \<open>\<open>UPDATE submissions SET status=..., reviewed_at=CURRENT_TIMESTAMP WHERE id=$1\<close>\<close>

definition review_submission :: "db \<Rightarrow> int \<Rightarrow> string \<Rightarrow> int \<Rightarrow> db" where
  "review_submission d sid status now =
     d\<lparr>submissions :=
          map (\<lambda>r. if s_id r = sid then r\<lparr>s_status := status, s_reviewed_at := Some now\<rparr> else r)
            (submissions d)\<rparr>"

text \<open>\<open>UPDATE users SET points = points + $1 WHERE user_id=$2\<close>\<close>

definition credit_points :: "db \<Rightarrow> int \<Rightarrow> int \<Rightarrow> db" where
  "credit_points d amount uid =
     d\<lparr>users := map (\<lambda>u. if u_user_id u = uid then u\<lparr>u_points := u_points u + amount\<rparr> else u)
          (users d)\<rparr>"

text \<open>The update is refused when its parameter or a row it touches would leave the
  \<open>INTEGER\<close> range; the same holds for the debit below.\<close>

definition credit_refused :: "db \<Rightarrow> int \<Rightarrow> int \<Rightarrow> bool" where
  "credit_refused d amount uid =
     (\<not> int4 amount
      \<or> list_ex (\<lambda>u. u_user_id u = uid \<and> \<not> int4 (u_points u + amount)) (users d))"

text \<open>\<open>UPDATE users SET points = points - $1 WHERE user_id=$2\<close>\<close>

definition debit_points :: "db \<Rightarrow> int \<Rightarrow> int \<Rightarrow> db" where
  "debit_points d amount uid =
     d\<lparr>users := map (\<lambda>u. if u_user_id u = uid then u\<lparr>u_points := u_points u - amount\<rparr> else u)
          (users d)\<rparr>"

definition debit_refused :: "db \<Rightarrow> int \<Rightarrow> int \<Rightarrow> bool" where
  "debit_refused d amount uid =
     (\<not> int4 amount \<or> list_ex (\<lambda>u. u_user_id u = uid \<and> \<not> int4 (u_points u - amount)) (users d))"

text \<open>\<open>INSERT INTO withdrawals (...) VALUES ($1, $2, $3, $4, $5, 'pending') RETURNING id\<close>\<close>

definition insert_withdrawal :: "db \<Rightarrow> int \<Rightarrow> string \<Rightarrow> string \<Rightarrow> string \<Rightarrow> int \<Rightarrow> db" where
  "insert_withdrawal d uid bank_name account_number account_name amount =
     d\<lparr>withdrawals := withdrawals d @
          [\<lparr>w_id = withdrawal_seq d, w_user_id = uid, w_bank_name = bank_name,
            w_account_number = account_number, w_account_name = account_name,
            w_points = amount, w_status = ''pending''\<rparr>],
       withdrawal_seq := withdrawal_seq d + 1\<rparr>"

text \<open>\<open>UPDATE withdrawals SET status='completed' WHERE id=$1\<close>\<close>

definition complete_withdrawal :: "db \<Rightarrow> int \<Rightarrow> db" where
  "complete_withdrawal d wid =
     d\<lparr>withdrawals := map (\<lambda>w. if w_id w = wid then w\<lparr>w_status := ''completed''\<rparr> else w)
          (withdrawals d)\<rparr>"

text \<open>\<open>SELECT ... FROM tasks WHERE archived=0\<close>\<close>

definition open_tasks :: "db \<Rightarrow> int list \<Rightarrow> task_row list" where
  "open_tasks d heap = heap_order t_id heap (filter (\<lambda>t. t_archived t = 0) (tasks d))"

text \<open>The administrator's statements: \<open>AddTaskModal.on_submit\<close> (the insert is refused
  when a number is outside the \<open>INTEGER\<close> range), \<open>remove_task_button\<close> (both deletes),
  \<open>BanUserModal.on_submit\<close>. \<open>EditTaskModal.on_submit\<close> issues no statement: it reads
  \<open>self.task_id\<close>, which the modal does not have, and the \<open>AttributeError\<close> is caught
  and answered.\<close>

definition add_task :: "db \<Rightarrow> string \<Rightarrow> int \<Rightarrow> int \<Rightarrow> db" where
  "add_task d title points max_subs =
     (if int4 points \<and> int4 max_subs
      then d\<lparr>tasks := tasks d @
                [\<lparr>t_id = task_seq d, t_title = title, t_points = points,
                  t_max_submissions = max_subs, t_archived = 0\<rparr>],
             task_seq := task_seq d + 1\<rparr>
      else d)"

definition remove_task :: "db \<Rightarrow> int \<Rightarrow> db" where
  "remove_task d tid =
     d\<lparr>submissions := filter (\<lambda>r. s_task_id r \<noteq> tid) (submissions d),
       tasks := filter (\<lambda>t. t_id t \<noteq> tid) (tasks d)\<rparr>"

definition ban_user :: "db \<Rightarrow> int \<Rightarrow> db" where
  "ban_user d uid =
     (if is_banned d uid then d else d\<lparr>banned_users := banned_users d @ [uid]\<rparr>)"

section \<open>The running bot\<close>

text \<open>
  The bot runs its callbacks as coroutines on one event loop: the code between two
  \<open>await\<close>s runs without interruption, and at each \<open>await\<close> any other coroutine may
  run. A callback in progress is a \<open>flow\<close>: the point it is suspended at, with the local
  variables it still needs. The state holds the store, the \<open>last_click\<close> dictionary, the
  flows in progress (by interaction), the quest boards and review messages whose buttons
  exist (with the values their callbacks captured), and the replies sent to each
  interaction.
\<close>

text \<open>A quest board: the message of \<open>tasks_cmd\<close>. Each button holds the \<open>tid\<close> and
  \<open>max_subs\<close> that \<open>factory\<close> captured when the board was built; \<open>b_author\<close> is the
  captured \<open>ctx_author\<close>; \<open>b_owner\<close> is \<open>message.guild.owner\<close>, which
  \<open>refresh_task_board\<close> takes as \<open>ctx_author\<close> (the board is not an interaction
  response), \<open>None\<close> outside a guild.\<close>

record board =
  b_author :: int
  b_owner :: "int option"
  b_channel :: int
  b_buttons :: "(int \<times> int) list"

text \<open>The \<open>row\<close> that \<open>PendingSelect.callback\<close> read and that \<open>approve_cb\<close> and
  \<open>reject_cb\<close> close over.\<close>

record review_row =
  r_sid :: int
  r_user_id :: int
  r_task_id :: int
  r_task_points :: int

text \<open>The variables of one \<open>task_cb\<close> call.\<close>

record tc =
  tc_user :: int
  tc_channel :: int
  tc_tid :: int
  tc_max_subs :: int
  tc_board :: nat

text \<open>The variables of one \<open>withdraw_cb\<close> call; \<open>wd_current_points\<close> is read once, at
  entry.\<close>

record wd =
  wd_user :: int
  wd_channel :: int
  wd_current_points :: int

datatype reply =
    Only_caller
  | Banned
  | Cooldown nat "int option"
  | Quest_full
  | Already_submitted string
  | Times_up
  | Proof_error
  | Submission_sent
  | Need_1000_points
  | Withdrawal_timed_out
  | Invalid_number
  | Minimum_1000
  | Only_have int
  | Withdrawal_sent int int
  | No_longer_pending
  | Approved_reply int int
  | Rejected_reply int

datatype flow =
    Tc_is_banned tc
  | Tc_gate tc bool
  | Tc_count tc
  | Tc_full tc
  | Tc_full_refresh tc
  | Tc_existing tc
  | Tc_await_proof tc
  | Tc_delete tc string
  | Tc_ensure_user tc string
  | Tc_insert tc string
  | Tc_refresh tc
  | Wd_get_points int int
  | Wd_bank_name wd
  | Wd_account_number wd string
  | Wd_account_name wd string string
  | Wd_points wd string string string
  | Wd_debit wd string string string int
  | Wd_insert wd string string string int
  | Ap_update_submission nat review_row
  | Ap_update_user nat review_row
  | Rj_update_submission nat review_row

record state =
  st_db :: db
  last_click :: "int \<times> int \<Rightarrow> int option"
  flows :: "nat \<Rightarrow> flow option"
  boards :: "nat \<Rightarrow> board option"
  views :: "nat \<Rightarrow> review_row option"
  replies :: "nat \<Rightarrow> reply list"

definition init :: state where
  "init = \<lparr>st_db = empty_db, last_click = (\<lambda>k. None), flows = (\<lambda>i. None),
     boards = (\<lambda>i. None), views = (\<lambda>i. None), replies = (\<lambda>i. [])\<rparr>"

definition goto :: "nat \<Rightarrow> flow \<Rightarrow> state \<Rightarrow> state" where
  "goto fid f s = s\<lparr>flows := (flows s)(fid \<mapsto> f)\<rparr>"

definition say :: "nat \<Rightarrow> reply \<Rightarrow> state \<Rightarrow> state" where
  "say fid r s = s\<lparr>replies := (replies s)(fid := replies s fid @ [r])\<rparr>"

definition finish :: "nat \<Rightarrow> state \<Rightarrow> state" where
  "finish fid s = s\<lparr>flows := (flows s)(fid := None)\<rparr>"

subsection \<open>Quest boards\<close>

text \<open>
  The loop of \<open>tasks_cmd\<close> and of \<open>refresh_task_board\<close> over \<open>rows[:10]\<close>: a task whose
  count has reached its capacity is archived and skipped, any other gets a button. The
  rows are those fetched before the loop; the counts are read in the loop. A board is
  built in one step of the model.
\<close>

fun board_loop :: "task_row list \<Rightarrow> db \<Rightarrow> (int \<times> int) list \<Rightarrow> db \<times> (int \<times> int) list" where
  "board_loop [] d view = (d, view)"
| "board_loop (r # rows) d view =
     (if count_done d (t_id r) \<ge> t_max_submissions r
      then board_loop rows (archive_task d (t_id r)) view
      else board_loop rows d (view @ [(t_id r, t_max_submissions r)]))"

definition tasks_cmd :: "nat \<Rightarrow> int \<Rightarrow> int option \<Rightarrow> int \<Rightarrow> int list \<Rightarrow> state \<Rightarrow> state" where
  "tasks_cmd bid author owner channel heap s =
     (let rows = open_tasks (st_db s) heap in
      if rows \<noteq> [] \<and> boards s bid = None
      then (case board_loop (take 10 rows) (st_db s) [] of
              (d, view) \<Rightarrow>
                s\<lparr>st_db := d,
                  boards := (boards s)(bid \<mapsto>
                    \<lparr>b_author = author, b_owner = owner, b_channel = channel, b_buttons = view\<rparr>)\<rparr>)
      else s)"

definition refresh_task_board :: "nat \<Rightarrow> int list \<Rightarrow> state \<Rightarrow> state" where
  "refresh_task_board bid heap s =
     (case boards s bid of
        None \<Rightarrow> s
      | Some b \<Rightarrow>
          (case b_owner b of
             None \<Rightarrow> s
           | Some ctx_author \<Rightarrow>
               (case board_loop (take 10 (open_tasks (st_db s) heap)) (st_db s) [] of
                  (d, view) \<Rightarrow>
                    s\<lparr>st_db := d,
                      boards := (boards s)(bid \<mapsto> b\<lparr>b_author := ctx_author, b_buttons := view\<rparr>)\<rparr>)))"

subsection \<open>Submission intake: \<open>task_cb\<close>\<close>

definition BUTTON_COOLDOWN :: int where
  "BUTTON_COOLDOWN = 10"

text \<open>\<open>(now - last).total_seconds()\<close> is the difference in microseconds divided by
  \<open>10^6\<close>; it is below \<open>BUTTON_COOLDOWN\<close> exactly when the difference is below
  \<open>BUTTON_COOLDOWN * 10^6\<close>. \<open>int(remaining)\<close> truncates the positive remainder.\<close>

definition in_cooldown :: "int \<Rightarrow> int \<Rightarrow> bool" where
  "in_cooldown now last_at = (now - last_at < BUTTON_COOLDOWN * 1000000)"

definition remaining_sec :: "int \<Rightarrow> int \<Rightarrow> int" where
  "remaining_sec now last_at = (BUTTON_COOLDOWN * 1000000 - (now - last_at)) div 1000000"

text \<open>\<open>COOLDOWN_MESSAGES\<close>: six templates, of which the fourth and the fifth contain
  \<open>{sec}\<close>; each entry says whether the template shows the seconds.
  \<open>random.choice\<close> takes the entry at a position that the step is given (\<open>pick\<close>). The
  reply is the position of the template and the seconds it shows, if it shows them.\<close>

definition COOLDOWN_MESSAGES :: "bool list" where
  "COOLDOWN_MESSAGES = [False, False, False, True, True, False]"

definition cooldown_message :: "nat \<Rightarrow> int \<Rightarrow> reply" where
  "cooldown_message pick sec =
     Cooldown (pick mod length COOLDOWN_MESSAGES)
       (if COOLDOWN_MESSAGES ! (pick mod length COOLDOWN_MESSAGES) then Some sec else None)"

text \<open>A click on button \<open>i\<close> of board \<open>bid\<close>, as interaction \<open>fid\<close>: the first test of
  \<open>task_cb\<close>, up to \<open>await is_banned\<close>.\<close>

definition click :: "nat \<Rightarrow> nat \<Rightarrow> nat \<Rightarrow> int \<Rightarrow> state \<Rightarrow> state" where
  "click fid bid i user s =
     (case boards s bid of
        None \<Rightarrow> s
      | Some b \<Rightarrow>
          if flows s fid = None \<and> i < length (b_buttons b)
          then (if user \<noteq> b_author b then say fid Only_caller s
                else goto fid (Tc_is_banned
                       \<lparr>tc_user = user, tc_channel = b_channel b, tc_tid = fst (b_buttons b ! i),
                        tc_max_subs = snd (b_buttons b ! i), tc_board = bid\<rparr>) s)
          else s)"

text \<open>The cooldown gate: the code from the return of \<open>is_banned\<close> to the next \<open>await\<close>;
  \<open>last_at\<close> is the source's \<open>last\<close>.\<close>

definition tc_gate :: "nat \<Rightarrow> int \<Rightarrow> nat \<Rightarrow> tc \<Rightarrow> bool \<Rightarrow> state \<Rightarrow> state" where
  "tc_gate fid now pick c banned s =
     (if banned then finish fid (say fid Banned s)
      else case last_click s (tc_user c, tc_tid c) of
             Some last_at \<Rightarrow>
               if in_cooldown now last_at
               then finish fid (say fid (cooldown_message pick (remaining_sec now last_at)) s)
               else goto fid (Tc_count c) (s\<lparr>last_click := (last_click s)((tc_user c, tc_tid c) \<mapsto> now)\<rparr>)
           | None \<Rightarrow>
               goto fid (Tc_count c) (s\<lparr>last_click := (last_click s)((tc_user c, tc_tid c) \<mapsto> now)\<rparr>))"

definition tc_count :: "nat \<Rightarrow> tc \<Rightarrow> state \<Rightarrow> state" where
  "tc_count fid c s =
     (let done_count = count_done (st_db s) (tc_tid c) in
      if done_count \<ge> tc_max_subs c then goto fid (Tc_full c) (say fid Quest_full s)
      else goto fid (Tc_existing c) s)"

definition tc_existing :: "nat \<Rightarrow> nat \<Rightarrow> tc \<Rightarrow> state \<Rightarrow> state" where
  "tc_existing fid pick c s =
     (case existing_submission (st_db s) (tc_user c) (tc_tid c) pick of
        Some existing \<Rightarrow> finish fid (say fid (Already_submitted (s_status existing)) s)
      | None \<Rightarrow> goto fid (Tc_await_proof c) s)"

text \<open>One step of a \<open>task_cb\<close> flow, from one \<open>await\<close> to the next.\<close>

fun task_cb :: "nat \<Rightarrow> int \<Rightarrow> nat \<Rightarrow> int list \<Rightarrow> flow \<Rightarrow> state \<Rightarrow> state" where
  "task_cb fid now pick heap (Tc_is_banned c) s =
     goto fid (Tc_gate c (is_banned (st_db s) (tc_user c))) s"
| "task_cb fid now pick heap (Tc_gate c banned) s = tc_gate fid now pick c banned s"
| "task_cb fid now pick heap (Tc_count c) s = tc_count fid c s"
| "task_cb fid now pick heap (Tc_full c) s =
     goto fid (Tc_full_refresh c) (s\<lparr>st_db := archive_task (st_db s) (tc_tid c)\<rparr>)"
| "task_cb fid now pick heap (Tc_full_refresh c) s =
     finish fid (refresh_task_board (tc_board c) heap s)"
| "task_cb fid now pick heap (Tc_existing c) s = tc_existing fid pick c s"
| "task_cb fid now pick heap (Tc_delete c proof) s = goto fid (Tc_ensure_user c proof) s"
| "task_cb fid now pick heap (Tc_ensure_user c proof) s =
     goto fid (Tc_insert c proof) (s\<lparr>st_db := ensure_user (st_db s) (tc_user c)\<rparr>)"
| "task_cb fid now pick heap (Tc_insert c proof) s =
     goto fid (Tc_refresh c)
       (say fid Submission_sent
          (s\<lparr>st_db := insert_submission (st_db s) (tc_user c) (tc_tid c) proof now\<rparr>))"
| "task_cb fid now pick heap (Tc_refresh c) s =
     finish fid (refresh_task_board (tc_board c) heap s)"
| "task_cb fid now pick heap f s = s"

subsection \<open>Withdrawal: \<open>withdraw_cb\<close>\<close>

text \<open>The validation of the requested amount (the \<open>try\<close> block around \<open>int(...)\<close> and the
  comparison with \<open>current_points\<close>); \<open>parsed\<close> is what \<open>int(details['points'])\<close> gives.\<close>

definition validate_amount :: "int option \<Rightarrow> int \<Rightarrow> reply + int" where
  "validate_amount parsed current_points =
     (case parsed of
        None \<Rightarrow> Inl Invalid_number
      | Some points_to_withdraw \<Rightarrow>
          if points_to_withdraw \<le> 0 then Inl Invalid_number
          else if points_to_withdraw < 1000 then Inl Minimum_1000
          else if points_to_withdraw > current_points then Inl (Only_have current_points)
          else Inr points_to_withdraw)"

definition withdraw_click :: "nat \<Rightarrow> int \<Rightarrow> int \<Rightarrow> state \<Rightarrow> state" where
  "withdraw_click fid user channel s =
     (if flows s fid = None then goto fid (Wd_get_points user channel) s else s)"

fun withdraw_cb :: "nat \<Rightarrow> flow \<Rightarrow> state \<Rightarrow> state" where
  "withdraw_cb fid (Wd_get_points user channel) s =
     (let current_points = get_user_points (st_db s) user in
      if current_points < 1000 then finish fid (say fid Need_1000_points s)
      else goto fid (Wd_bank_name
             \<lparr>wd_user = user, wd_channel = channel, wd_current_points = current_points\<rparr>) s)"
| "withdraw_cb fid (Wd_debit w bank_name account_number account_name points_to_withdraw) s =
     (if debit_refused (st_db s) points_to_withdraw (wd_user w) then finish fid s
      else goto fid (Wd_insert w bank_name account_number account_name points_to_withdraw)
             (s\<lparr>st_db := debit_points (st_db s) points_to_withdraw (wd_user w)\<rparr>))"
| "withdraw_cb fid (Wd_insert w bank_name account_number account_name points_to_withdraw) s =
     finish fid
       (say fid (Withdrawal_sent points_to_withdraw (wd_current_points w - points_to_withdraw))
          (s\<lparr>st_db := insert_withdrawal (st_db s) (wd_user w) bank_name account_number
                         account_name points_to_withdraw\<rparr>))"
| "withdraw_cb fid f s = s"

subsection \<open>Review: \<open>PendingSelect.callback\<close>, \<open>approve_cb\<close>, \<open>reject_cb\<close>\<close>

text \<open>The join \<open>SELECT s.*, t.title, t.points AS task_points FROM submissions s JOIN tasks t
  ON s.task_id = t.id WHERE s.id=$1\<close>.\<close>

definition review_join :: "db \<Rightarrow> int \<Rightarrow> (submission_row \<times> task_row) option" where
  "review_join d sid =
     (case find (\<lambda>r. s_id r = sid) (submissions d) of
        None \<Rightarrow> None
      | Some r \<Rightarrow>
          (case find (\<lambda>t. t_id t = s_task_id r) (tasks d) of
             None \<Rightarrow> None
           | Some t \<Rightarrow> Some (r, t)))"

definition select_submission :: "nat \<Rightarrow> int \<Rightarrow> state \<Rightarrow> state" where
  "select_submission vid sid s =
     (if views s vid = None
      then (case review_join (st_db s) sid of
              None \<Rightarrow> say vid No_longer_pending s
            | Some (r, t) \<Rightarrow>
                if s_status r \<noteq> ''pending'' then say vid No_longer_pending s
                else s\<lparr>views := (views s)(vid \<mapsto>
                       \<lparr>r_sid = sid, r_user_id = s_user_id r, r_task_id = s_task_id r,
                        r_task_points = t_points t\<rparr>)\<rparr>)
      else s)"

definition approve_click :: "nat \<Rightarrow> nat \<Rightarrow> state \<Rightarrow> state" where
  "approve_click fid vid s =
     (case views s vid of
        None \<Rightarrow> s
      | Some row \<Rightarrow> if flows s fid = None then goto fid (Ap_update_submission vid row) s else s)"

definition reject_click :: "nat \<Rightarrow> nat \<Rightarrow> state \<Rightarrow> state" where
  "reject_click fid vid s =
     (case views s vid of
        None \<Rightarrow> s
      | Some row \<Rightarrow> if flows s fid = None then goto fid (Rj_update_submission vid row) s else s)"

text \<open>\<open>approve_cb\<close> issues its two updates one after the other on one connection, with no
  transaction around them; \<open>edit_message(view=None)\<close> at its end removes the buttons.\<close>

fun approve_cb :: "nat \<Rightarrow> int \<Rightarrow> flow \<Rightarrow> state \<Rightarrow> state" where
  "approve_cb fid now (Ap_update_submission vid row) s =
     goto fid (Ap_update_user vid row)
       (s\<lparr>st_db := review_submission (st_db s) (r_sid row) ''approved'' now\<rparr>)"
| "approve_cb fid now (Ap_update_user vid row) s =
     (if credit_refused (st_db s) (r_task_points row) (r_user_id row) then finish fid s
      else finish fid
             (say fid (Approved_reply (r_sid row) (r_task_points row))
                (s\<lparr>st_db := credit_points (st_db s) (r_task_points row) (r_user_id row),
                   views := (views s)(vid := None)\<rparr>)))"
| "approve_cb fid now f s = s"

fun reject_cb :: "nat \<Rightarrow> int \<Rightarrow> flow \<Rightarrow> state \<Rightarrow> state" where
  "reject_cb fid now (Rj_update_submission vid row) s =
     finish fid
       (say fid (Rejected_reply (r_sid row))
          (s\<lparr>st_db := review_submission (st_db s) (r_sid row) ''rejected'' now,
             views := (views s)(vid := None)\<rparr>))"
| "reject_cb fid now f s = s"

subsection \<open>Messages and timeouts\<close>

text \<open>The flows suspended in \<open>bot.wait_for("message", check=..., timeout=...)\<close>: the proof
  wait of \<open>task_cb\<close> (180 seconds) and the four field waits of \<open>withdraw_cb\<close> (60 seconds
  each).\<close>

fun awaiting_input :: "flow \<Rightarrow> bool" where
  "awaiting_input (Tc_await_proof c) = True"
| "awaiting_input (Wd_bank_name w) = True"
| "awaiting_input (Wd_account_number w b) = True"
| "awaiting_input (Wd_account_name w b n) = True"
| "awaiting_input (Wd_points w b n a) = True"
| "awaiting_input f = False"

text \<open>What a message does to one flow: nothing unless the flow waits and its \<open>check\<close>
  accepts the message; then the flow runs on to its next \<open>await\<close>.\<close>

fun on_message :: "int \<Rightarrow> int \<Rightarrow> string \<Rightarrow> int option \<Rightarrow> flow \<Rightarrow> flow option \<times> reply list" where
  "on_message author channel content parsed (Tc_await_proof c) =
     (if author = tc_user c \<and> startswith content ''http'' \<and> channel = tc_channel c
      then (Some (Tc_delete c (strip content)), [])
      else (Some (Tc_await_proof c), []))"
| "on_message author channel content parsed (Wd_bank_name w) =
     (if author = wd_user w \<and> channel = wd_channel w
      then (Some (Wd_account_number w content), [])
      else (Some (Wd_bank_name w), []))"
| "on_message author channel content parsed (Wd_account_number w bank_name) =
     (if author = wd_user w \<and> channel = wd_channel w
      then (Some (Wd_account_name w bank_name content), [])
      else (Some (Wd_account_number w bank_name), []))"
| "on_message author channel content parsed (Wd_account_name w bank_name account_number) =
     (if author = wd_user w \<and> channel = wd_channel w
      then (Some (Wd_points w bank_name account_number content), [])
      else (Some (Wd_account_name w bank_name account_number), []))"
| "on_message author channel content parsed (Wd_points w bank_name account_number account_name) =
     (if author = wd_user w \<and> channel = wd_channel w
      then (case validate_amount parsed (wd_current_points w) of
              Inl r \<Rightarrow> (None, [r])
            | Inr points_to_withdraw \<Rightarrow>
                (Some (Wd_debit w bank_name account_number account_name points_to_withdraw), []))
      else (Some (Wd_points w bank_name account_number account_name), []))"
| "on_message author channel content parsed f = (Some f, [])"

text \<open>\<open>wait_for\<close> resolves every waiting listener whose check accepts the message.\<close>

definition message :: "int \<Rightarrow> int \<Rightarrow> string \<Rightarrow> int option \<Rightarrow> state \<Rightarrow> state" where
  "message author channel content parsed s =
     s\<lparr>flows := (\<lambda>i. case flows s i of
                        None \<Rightarrow> None
                      | Some f \<Rightarrow> fst (on_message author channel content parsed f)),
       replies := (\<lambda>i. case flows s i of
                          None \<Rightarrow> replies s i
                        | Some f \<Rightarrow> replies s i @ snd (on_message author channel content parsed f))\<rparr>"

definition timeout_reply :: "flow \<Rightarrow> reply" where
  "timeout_reply f = (case f of Tc_await_proof c \<Rightarrow> Times_up | _ \<Rightarrow> Withdrawal_timed_out)"

definition timeout :: "nat \<Rightarrow> state \<Rightarrow> state" where
  "timeout fid s =
     (case flows s fid of
        None \<Rightarrow> s
      | Some f \<Rightarrow> if awaiting_input f then finish fid (say fid (timeout_reply f) s) else s)"

subsection \<open>Events\<close>

text \<open>
  \<open>Advance fid now fails pick heap\<close> resumes flow \<open>fid\<close> for one step; \<open>now\<close> is the
  clock the step reads (if it reads one), \<open>fails\<close> says that the awaited call raised for a
  reason outside the program, \<open>pick\<close> is the draw of \<open>random.choice\<close> or the position
  of the row \<open>fetchrow\<close> gets, and \<open>heap\<close> the order of the rows a board refresh reads. An exception
  ends the flow: in \<open>task_cb\<close> the failure of \<open>msg.delete()\<close> is caught and answered,
  elsewhere the exception leaves the callback. A flow that waits for a message is not
  resumed by \<open>Advance\<close>. Each of the four callbacks acts on its own flows and leaves
  the state as it is on any other flow, so their composition runs the one that owns the
  flow.
\<close>

definition advance :: "nat \<Rightarrow> int \<Rightarrow> bool \<Rightarrow> nat \<Rightarrow> int list \<Rightarrow> state \<Rightarrow> state" where
  "advance fid now fails pick heap s =
     (case flows s fid of
        None \<Rightarrow> s
      | Some f \<Rightarrow>
          if awaiting_input f then s
          else if fails then
            (case f of Tc_delete c proof \<Rightarrow> finish fid (say fid Proof_error s) | _ \<Rightarrow> finish fid s)
          else reject_cb fid now f
                 (approve_cb fid now f (withdraw_cb fid f (task_cb fid now pick heap f s))))"

text \<open>
  What happens to the bot, one event at a time. The administrator's actions (\<open>Add_task\<close>:
  the insert of \<open>AddTaskModal.on_submit\<close> or \<open>addtask\<close>; \<open>Edit_task\<close>: no statement;
  \<open>Remove_task\<close>: both deletes; \<open>Archive_task\<close>; \<open>Ban_user\<close>; \<open>Approve_withdrawal\<close>) and the building of
  a board (\<open>Tasks_cmd\<close>: board message, author, guild owner, channel, order of the rows)
  are one step each.
  \<open>Click\<close> (interaction, board, button, user), \<open>Withdraw_click\<close> (interaction, user,
  channel), \<open>Approve_click\<close> and \<open>Reject_click\<close> (interaction, review message) start a
  flow; \<open>Select_submission\<close> (review message, submission id) is
  \<open>PendingSelect.callback\<close>. \<open>Message\<close> (author, channel, content, what \<open>int\<close> gives
  on the content) is a message posted in a channel, \<open>Timeout\<close> the expiry of the wait of a flow.
\<close>

datatype event =
    Add_task string int int
  | Edit_task int
  | Remove_task int
  | Archive_task int
  | Ban_user int
  | Approve_withdrawal int
  | Tasks_cmd nat int "int option" int "int list"
  | Click nat nat nat int
  | Withdraw_click nat int int
  | Select_submission nat int
  | Approve_click nat nat
  | Reject_click nat nat
  | Advance nat int bool nat "int list"
  | Message int int string "int option"
  | Timeout nat

fun step :: "event \<Rightarrow> state \<Rightarrow> state" where
  "step (Add_task title points max_subs) s = s\<lparr>st_db := add_task (st_db s) title points max_subs\<rparr>"
| "step (Edit_task tid) s = s"
| "step (Remove_task tid) s = s\<lparr>st_db := remove_task (st_db s) tid\<rparr>"
| "step (Archive_task tid) s = s\<lparr>st_db := archive_task (st_db s) tid\<rparr>"
| "step (Ban_user uid) s = s\<lparr>st_db := ban_user (st_db s) uid\<rparr>"
| "step (Approve_withdrawal wid) s = s\<lparr>st_db := complete_withdrawal (st_db s) wid\<rparr>"
| "step (Tasks_cmd bid author owner channel heap) s = tasks_cmd bid author owner channel heap s"
| "step (Click fid bid i user) s = click fid bid i user s"
| "step (Withdraw_click fid user channel) s = withdraw_click fid user channel s"
| "step (Select_submission vid sid) s = select_submission vid sid s"
| "step (Approve_click fid vid) s = approve_click fid vid s"
| "step (Reject_click fid vid) s = reject_click fid vid s"
| "step (Advance fid now fails pick heap) s = advance fid now fails pick heap s"
| "step (Message author channel content parsed) s = message author channel content parsed s"
| "step (Timeout fid) s = timeout fid s"

fun run :: "event list \<Rightarrow> state \<Rightarrow> state" where
  "run [] s = s"
| "run (e # es) s = run es (step e s)"

subsection \<open>What the claims speak of\<close>

text \<open>The points of a flow before its first write: from the click to the wait for input.\<close>

fun before_commit :: "flow \<Rightarrow> bool" where
  "before_commit (Tc_is_banned c) = True"
| "before_commit (Tc_gate c b) = True"
| "before_commit (Tc_count c) = True"
| "before_commit (Tc_existing c) = True"
| "before_commit (Wd_get_points u ch) = True"
| "before_commit f = awaiting_input f"

text \<open>The two sides of the ledger equation: the rewards of a user's approved submissions
  (the reward of a submission is the \<open>points\<close> of its task) and the user's withdrawals.\<close>

definition reward_of :: "db \<Rightarrow> int \<Rightarrow> int" where
  "reward_of d tid = (case find (\<lambda>t. t_id t = tid) (tasks d) of Some t \<Rightarrow> t_points t | None \<Rightarrow> 0)"

definition approved_rewards :: "db \<Rightarrow> int \<Rightarrow> int" where
  "approved_rewards d uid =
     sum_list (map (\<lambda>r. reward_of d (s_task_id r))
       (filter (\<lambda>r. s_user_id r = uid \<and> s_status r = ''approved'') (submissions d)))"

definition withdrawn :: "db \<Rightarrow> int \<Rightarrow> int" where
  "withdrawn d uid = sum_list (map w_points (filter (\<lambda>w. w_user_id w = uid) (withdrawals d)))"

text \<open>The rewards of a user's approved submissions to one task: what the removal of the
  task takes out of \<open>approved_rewards\<close>.\<close>

definition removed_rewards :: "db \<Rightarrow> int \<Rightarrow> int \<Rightarrow> int" where
  "removed_rewards d tid uid =
     sum_list (map (\<lambda>r. reward_of d (s_task_id r))
       (filter (\<lambda>r. s_user_id r = uid \<and> s_status r = ''approved'' \<and> s_task_id r = tid)
          (submissions d)))"

definition ledger_balanced :: "db \<Rightarrow> int \<Rightarrow> bool" where
  "ledger_balanced d uid = (get_user_points d uid = approved_rewards d uid - withdrawn d uid)"

definition rows_of :: "db \<Rightarrow> int \<Rightarrow> int \<Rightarrow> submission_row list" where
  "rows_of d uid tid = filter (\<lambda>r. s_user_id r = uid \<and> s_task_id r = tid) (submissions d)"

definition archived_in :: "db \<Rightarrow> int \<Rightarrow> bool" where
  "archived_in d tid = list_all (\<lambda>t. t_archived t = 1) (filter (\<lambda>t. t_id t = tid) (tasks d))"

text \<open>
  Runs used below. An administrator adds a quest with the given reward and capacity;
  user 7 opens a board (message 0) in channel 100 of a guild owned by user 99 and clicks
  the quest (interaction 1); the flow passes the ban test, the cooldown gate at time 0,
  the capacity test and the duplicate test, and waits for the proof.
\<close>

definition intake_until_wait :: "int \<Rightarrow> int \<Rightarrow> event list" where
  "intake_until_wait reward capacity =
     [Add_task ''Quest'' reward capacity, Tasks_cmd 0 7 (Some 99) 100 [], Click 1 0 0 7,
      Advance 1 0 False 0 [], Advance 1 0 False 0 [], Advance 1 1 False 0 [], Advance 1 2 False 0 []]"

text \<open>The user posts a link; the flow deletes the message, ensures the user row and
  inserts the submission. It is then about to refresh the board.\<close>

definition intake :: "int \<Rightarrow> int \<Rightarrow> event list" where
  "intake reward capacity =
     intake_until_wait reward capacity @
     [Message 7 100 ''https://x.com/p'' None, Advance 1 3 False 0 [], Advance 1 4 False 0 [], Advance 1 5 False 0 []]"

text \<open>The board is refreshed; an administrator picks submission 1 from the review menu
  (review message 0) and presses Approve (interaction 2).\<close>

definition intake_selected :: "int \<Rightarrow> int \<Rightarrow> event list" where
  "intake_selected reward capacity =
     intake reward capacity @ [Advance 1 6 False 0 [], Select_submission 0 1, Approve_click 2 0]"

text \<open>Both updates of \<open>approve_cb\<close> run.\<close>

definition intake_approved :: "int \<Rightarrow> int \<Rightarrow> event list" where
  "intake_approved reward capacity =
     intake_selected reward capacity @ [Advance 2 7 False 0 [], Advance 2 8 False 0 []]"

text \<open>Submission 1 is picked twice from the review menu while it is pending (review
  messages 0 and 1, by two administrators or by one), and approved from the first
  message.\<close>

definition reviewed_twice :: "event list" where
  "reviewed_twice =
     intake 200 1 @
     [Advance 1 6 False 0 [], Select_submission 0 1, Select_submission 1 1,
      Approve_click 2 0, Advance 2 7 False 0 [], Advance 2 8 False 0 []]"

text \<open>User 7 opens a board in channel 100 and one in channel 200, clicks the quest on the
  first at time 0 and on the second 11 seconds later; both flows pass every test and wait.
  The user then posts a link in each channel and both flows run to their end.\<close>

definition two_channels :: "event list" where
  "two_channels =
     [Add_task ''Quest'' 200 5, Tasks_cmd 0 7 (Some 99) 100 [], Tasks_cmd 1 7 (Some 99) 200 [],
      Click 1 0 0 7, Advance 1 0 False 0 [], Advance 1 0 False 0 [], Advance 1 1 False 0 [], Advance 1 2 False 0 [],
      Click 2 1 0 7, Advance 2 3 False 0 [], Advance 2 11000000 False 0 [], Advance 2 4 False 0 [],
      Advance 2 5 False 0 [],
      Message 7 100 ''https://x.com/p'' None,
      Advance 1 6 False 0 [], Advance 1 7 False 0 [], Advance 1 8 False 0 [], Advance 1 9 False 0 [],
      Message 7 200 ''https://x.com/q'' None,
      Advance 2 10 False 0 [], Advance 2 11 False 0 [], Advance 2 12 False 0 [], Advance 2 13 False 0 []]"

text \<open>Users 7 and 8 each open a board and click a quest of capacity 1; both flows pass the
  capacity test before either inserts.\<close>

definition last_slot_twice :: "event list" where
  "last_slot_twice =
     [Add_task ''Quest'' 200 1, Tasks_cmd 0 7 (Some 99) 100 [], Tasks_cmd 1 8 (Some 99) 100 [],
      Click 1 0 0 7, Advance 1 0 False 0 [], Advance 1 0 False 0 [], Advance 1 1 False 0 [], Advance 1 2 False 0 [],
      Click 2 1 0 8, Advance 2 3 False 0 [], Advance 2 3 False 0 [], Advance 2 4 False 0 [], Advance 2 5 False 0 [],
      Message 7 100 ''https://x.com/p'' None,
      Advance 1 6 False 0 [], Advance 1 7 False 0 [], Advance 1 8 False 0 [], Advance 1 9 False 0 [],
      Message 8 100 ''https://x.com/q'' None,
      Advance 2 10 False 0 [], Advance 2 11 False 0 [], Advance 2 12 False 0 [], Advance 2 13 False 0 []]"

text \<open>User 7 has 1000 points and presses Withdraw in channel 100 and in channel 200
  (interactions 3 and 4); both flows read the balance. The user answers the four prompts
  in channel 100 and that flow commits; the user then answers the first three prompts in
  channel 200.\<close>

definition two_withdrawals :: "event list" where
  "two_withdrawals =
     intake_approved 1000 5 @
     [Withdraw_click 3 7 100, Advance 3 9 False 0 [], Withdraw_click 4 7 200, Advance 4 9 False 0 [],
      Message 7 100 ''Bank'' None, Message 7 100 ''0123456789'' (Some 123456789), Message 7 100 ''A. User'' None,
      Message 7 100 ''1000'' (Some 1000), Advance 3 10 False 0 [], Advance 3 11 False 0 [],
      Message 7 200 ''Bank'' None, Message 7 200 ''0123456789'' (Some 123456789), Message 7 200 ''A. User'' None]"

text \<open>User 7 has 1200 points, presses Withdraw and answers the first three prompts.\<close>

definition withdrawal_at_amount :: "event list" where
  "withdrawal_at_amount =
     intake_approved 1200 5 @
     [Withdraw_click 3 7 100, Advance 3 9 False 0 [],
      Message 7 100 ''Bank'' None, Message 7 100 ''0123456789'' (Some 123456789), Message 7 100 ''A. User'' None]"

text \<open>User 7 clicks the quest three times; the clicks reach the cooldown gate at 0, 9 and
  12 seconds.\<close>

definition three_clicks :: "event list" where
  "three_clicks =
     [Add_task ''Quest'' 200 5, Tasks_cmd 0 7 (Some 99) 100 [],
      Click 1 0 0 7, Advance 1 0 False 0 [], Advance 1 0 False 0 [],
      Click 2 0 0 7, Advance 2 0 False 0 [], Advance 2 9000000 False 0 [],
      Click 3 0 0 7, Advance 3 0 False 0 [], Advance 3 12000000 False 0 []]"

text \<open>User 7 clicks the quest twice; both flows have passed the ban test.\<close>

definition both_at_gate :: "event list" where
  "both_at_gate =
     [Add_task ''Quest'' 200 5, Tasks_cmd 0 7 (Some 99) 100 [],
      Click 1 0 0 7, Advance 1 0 False 0 [], Click 2 0 0 7, Advance 2 0 False 0 []]"

text \<open>User 7 has clicked a quest and the flow is about to count the submissions.\<close>

definition at_capacity_check :: "int \<Rightarrow> event list" where
  "at_capacity_check capacity =
     [Add_task ''Quest'' 200 capacity, Tasks_cmd 0 7 (Some 99) 100 [], Click 1 0 0 7,
      Advance 1 0 False 0 [], Advance 1 0 False 0 []]"

text \<open>User 7 waits for the proof of a quest of capacity 1 when user 8 opens a board
  (message 1) that lists the quest. User 7 submits and the board of user 7 is refreshed;
  user 8 then clicks the quest on the older board (interaction 2) and passes the ban test
  and the cooldown gate.\<close>

definition full_quest_clicked :: "event list" where
  "full_quest_clicked =
     intake_until_wait 200 1 @
     [Tasks_cmd 1 8 (Some 99) 100 [],
      Message 7 100 ''https://x.com/p'' None, Advance 1 3 False 0 [], Advance 1 4 False 0 [], Advance 1 5 False 0 [],
      Advance 1 6 False 0 [],
      Click 2 1 0 8, Advance 2 7 False 0 [], Advance 2 20000000 False 0 []]"

definition quest_8 :: tc where
  "quest_8 = \<lparr>tc_user = 8, tc_channel = 100, tc_tid = 1, tc_max_subs = 1, tc_board = 1\<rparr>"

definition quest_7 :: "int \<Rightarrow> tc" where
  "quest_7 capacity =
     \<lparr>tc_user = 7, tc_channel = 100, tc_tid = 1, tc_max_subs = capacity, tc_board = 0\<rparr>"

section \<open>Evaluation\<close>

lemmas store_defs =
  empty_db_def ensure_user_def get_user_points_def is_banned_def count_done_def
  archive_task_def existing_submission_def insert_submission_def review_submission_def
  credit_points_def debit_points_def insert_withdrawal_def complete_withdrawal_def
  open_tasks_def add_task_def remove_task_def ban_user_def review_join_def
  int4_def heap_order_def fetchrow_def credit_refused_def debit_refused_def

lemmas string_defs =
  is_space_def strip_def startswith_def

lemmas flow_defs =
  init_def goto_def say_def finish_def tasks_cmd_def refresh_task_board_def
  BUTTON_COOLDOWN_def in_cooldown_def remaining_sec_def COOLDOWN_MESSAGES_def
  cooldown_message_def click_def tc_gate_def tc_count_def
  tc_existing_def validate_amount_def withdraw_click_def select_submission_def
  approve_click_def reject_click_def message_def timeout_reply_def timeout_def advance_def

lemmas claim_defs =
  reward_of_def approved_rewards_def withdrawn_def removed_rewards_def ledger_balanced_def
  rows_of_def
  archived_in_def intake_until_wait_def intake_def intake_selected_def intake_approved_def
  reviewed_twice_def two_channels_def last_slot_twice_def two_withdrawals_def
  withdrawal_at_amount_def three_clicks_def both_at_gate_def at_capacity_check_def
  full_quest_clicked_def quest_7_def quest_8_def

section \<open>Frames\<close>

lemma board_loop_frame:
  "submissions (fst (board_loop rows d v)) = submissions d \<and>
   users (fst (board_loop rows d v)) = users d \<and>
   withdrawals (fst (board_loop rows d v)) = withdrawals d \<and>
   banned_users (fst (board_loop rows d v)) = banned_users d"
  by (induction rows d v rule: board_loop.induct) (simp_all add: archive_task_def)

lemma refresh_frame:
  "last_click (refresh_task_board b h s) = last_click s \<and>
   flows (refresh_task_board b h s) = flows s \<and>
   views (refresh_task_board b h s) = views s \<and>
   replies (refresh_task_board b h s) = replies s"
  by (simp add: refresh_task_board_def split: option.splits prod.splits)

lemma tasks_cmd_frame:
  "last_click (tasks_cmd b a ow ch h s) = last_click s \<and>
   flows (tasks_cmd b a ow ch h s) = flows s \<and>
   views (tasks_cmd b a ow ch h s) = views s \<and>
   replies (tasks_cmd b a ow ch h s) = replies s"
  by (simp add: tasks_cmd_def Let_def split: option.splits prod.splits)

section \<open>Capacity\<close>










section \<open>Cooldown\<close>

lemma advance_last_click:
  assumes "last_click s k = Some t"
  shows "\<exists>t'. last_click (advance a now x p h s) k = Some t' \<and> t \<le> t'"
proof (cases "flows s a")
  case None
  then show ?thesis using assms by (simp add: advance_def)
next
  case (Some f)
  then show ?thesis using assms
    by (cases f)
       (auto simp: advance_def goto_def say_def finish_def tc_gate_def tc_count_def tc_existing_def
          refresh_frame in_cooldown_def BUTTON_COOLDOWN_def Let_def
          split: option.splits if_splits)
qed

lemma step_last_click:
  assumes "last_click s k = Some t"
  shows "\<exists>t'. last_click (step e s) k = Some t' \<and> t \<le> t'"
  using assms
proof (cases e)
  case (Advance a now x p h)
  then show ?thesis using advance_last_click[OF assms] by simp
qed (auto simp: tasks_cmd_frame click_def withdraw_click_def select_submission_def approve_click_def
      reject_click_def message_def timeout_def goto_def say_def finish_def
      split: option.splits prod.splits)

lemma run_last_click:
  "last_click s k = Some t \<Longrightarrow> \<exists>t'. last_click (run es s) k = Some t' \<and> t \<le> t'"
proof (induction es arbitrary: s t)
  case Nil
  then show ?case by simp
next
  case (Cons e es)
  from step_last_click[OF Cons.prems] obtain t1 where
    a: "last_click (step e s) k = Some t1" and b: "t \<le> t1" by blast
  from Cons.IH[OF a] obtain t2 where "last_click (run es (step e s)) k = Some t2" "t1 \<le> t2" by blast
  with b show ?case by auto
qed

section \<open>Waits\<close>

lemma advance_before_commit:
  assumes "flows (advance a now x p h s) fid = Some g" "before_commit g" "flows s fid \<noteq> Some g"
  shows "st_db (advance a now x p h s) = st_db s"
proof (cases "flows s a")
  case None
  then show ?thesis by (simp add: advance_def)
next
  case (Some f)
  then show ?thesis using assms
    by (cases f)
       (auto simp: advance_def goto_def say_def finish_def tc_gate_def tc_count_def tc_existing_def
          refresh_frame Let_def
          split: option.splits if_splits)
qed

lemma step_before_commit:
  assumes "flows (step e s) fid = Some g" "before_commit g" "flows s fid \<noteq> Some g"
  shows "st_db (step e s) = st_db s"
proof (cases e)
  case (Advance a now x p h)
  then show ?thesis using advance_before_commit[of a now x p h s fid g] assms by simp
next
  case (Tasks_cmd b a ow ch h)
  then show ?thesis using assms by (simp add: tasks_cmd_frame)
qed (use assms in \<open>auto simp: click_def withdraw_click_def select_submission_def approve_click_def
      reject_click_def message_def timeout_def goto_def say_def finish_def
      split: option.splits prod.splits if_splits\<close>)

section \<open>Removal\<close>





section \<open>Milestones\<close>

lemma next_milestones_reached_filter:
  "next_milestones_reached old_pts new_pts ms = filter (\<lambda>m. old_pts < m \<and> m \<le> new_pts) ms"
  by (induction ms) simp_all

text \<open>
  C6. \<open>next_milestones_reached old new ms\<close> returns exactly the configured milestones \<open>m\<close>
  with \<open>old < m \<le> new\<close>: the same values, each as often as configured, in the configured
  order (so all of them when one credit crosses several). With the milestones
  500, 1000, 1500, 2000 it gives 500, 1000, 1500 for 480 to 1600, and nothing for 500 to 500.
\<close>

theorem milestones_crossed_exact:
  "set (next_milestones_reached old_pts new_pts ms) = {m \<in> set ms. old_pts < m \<and> m \<le> new_pts}
   \<and> subseq (next_milestones_reached old_pts new_pts ms) ms
   \<and> count_list (next_milestones_reached old_pts new_pts ms) m
       = (if old_pts < m \<and> m \<le> new_pts then count_list ms m else 0)
   \<and> next_milestones_reached 480 1600 MILESTONES = [500, 1000, 1500]
   \<and> next_milestones_reached 500 500 MILESTONES = []"
proof -
  have a: "set (next_milestones_reached old_pts new_pts ms)
             = {m \<in> set ms. old_pts < m \<and> m \<le> new_pts}"
    by (simp add: next_milestones_reached_filter)
  have b: "subseq (next_milestones_reached old_pts new_pts ms) ms"
    by (simp add: next_milestones_reached_filter)
  have c: "count_list (next_milestones_reached old_pts new_pts ms) m
             = (if old_pts < m \<and> m \<le> new_pts then count_list ms m else 0)"
    by (induction ms) auto
  have d: "next_milestones_reached 480 1600 MILESTONES = [500, 1000, 1500]"
    by (simp add: MILESTONES_def)
  have e: "next_milestones_reached 500 500 MILESTONES = []"
    by (simp add: MILESTONES_def)
  from a b c d e show ?thesis by blast
qed

section \<open>Review\<close>

lemmas run_defs = store_defs string_defs flow_defs claim_defs

text \<open>
  C1. The claim: a second approve or reject on a submission that is already reviewed
  changes neither the submission row nor the submitter's points, because the status is
  read again before the update. In the source only \<open>PendingSelect.callback\<close> tests
  \<open>status\<close>; \<open>approve_cb\<close> and \<open>reject_cb\<close> update \<open>WHERE id=$1\<close> with the row
  captured at selection. In the run \<open>reviewed_twice\<close> submission 1 (reward 200) is
  approved from one review message while a second one, opened when it was pending, still
  shows its buttons: user 7 has 200 points. Approve on the second message sets
  \<open>reviewed_at\<close> again and credits 200 more; Reject on it turns the approved submission
  into a rejected one and leaves the 200 points.
\<close>

theorem approve_after_review_credits_again:
  "map s_status (submissions (st_db (run reviewed_twice init))) = [''approved'']
   \<and> map s_reviewed_at (submissions (st_db (run reviewed_twice init))) = [Some 7]
   \<and> get_user_points (st_db (run reviewed_twice init)) 7 = 200
   \<and> views (run reviewed_twice init) 1
       = Some \<lparr>r_sid = 1, r_user_id = 7, r_task_id = 1, r_task_points = 200\<rparr>
   \<and> get_user_points (st_db (run (reviewed_twice @
         [Approve_click 3 1, Advance 3 9 False 0 [], Advance 3 10 False 0 []]) init)) 7 = 400
   \<and> map s_reviewed_at (submissions (st_db (run (reviewed_twice @
         [Approve_click 3 1, Advance 3 9 False 0 [], Advance 3 10 False 0 []]) init))) = [Some 9]
   \<and> replies (run (reviewed_twice @
         [Approve_click 3 1, Advance 3 9 False 0 [], Advance 3 10 False 0 []]) init) 3
       = [Approved_reply 1 200]
   \<and> map s_status (submissions (st_db (run (reviewed_twice @
         [Reject_click 3 1, Advance 3 9 False 0 []]) init))) = [''rejected'']
   \<and> get_user_points (st_db (run (reviewed_twice @
         [Reject_click 3 1, Advance 3 9 False 0 []]) init)) 7 = 200"
  by (simp add: run_defs)

text \<open>
  C2. The claim: the two updates of approve are applied together or not at all. In the
  source they are two \<open>conn.execute\<close> calls with no \<open>conn.transaction()\<close> around them,
  under the comment "Perform both updates in the same block for efficiency/atomicity".
  When the second call raises, the submission is approved and the user has no credit;
  the same state is there for any other coroutine between the two calls.
\<close>

theorem approve_interrupted_between_updates:
  "map s_status (submissions (st_db (run (intake_selected 200 1 @
       [Advance 2 7 False 0 [], Advance 2 8 True 0 []]) init))) = [''approved'']
   \<and> users (st_db (run (intake_selected 200 1 @
       [Advance 2 7 False 0 [], Advance 2 8 True 0 []]) init)) = [\<lparr>u_user_id = 7, u_points = 0\<rparr>]
   \<and> flows (run (intake_selected 200 1 @ [Advance 2 7 False 0 [], Advance 2 8 True 0 []]) init) 2 = None
   \<and> map s_status (submissions (st_db (run (intake_selected 200 1 @
       [Advance 2 7 False 0 []]) init))) = [''approved'']
   \<and> get_user_points (st_db (run (intake_selected 200 1 @ [Advance 2 7 False 0 []]) init)) 7 = 0"
  by (simp add: run_defs)

section \<open>The points ledger\<close>




text \<open>
  C7. The claim: an amount that exceeds the user's current balance ends the negotiation
  with no debit and no withdrawal row. The source compares the amount with
  \<open>current_points\<close>, read once at the eligibility test, before the four prompts. In the
  run \<open>two_withdrawals\<close> user 7 (1000 points) has started two negotiations and committed
  the first: the balance is 0. The second flow still holds \<open>current_points = 1000\<close>; it
  accepts the amount 1000, debits it and inserts a second row: the balance is -1000.
\<close>

theorem withdrawal_checked_against_stale_balance:
  "get_user_points (st_db (run two_withdrawals init)) 7 = 0
   \<and> flows (run two_withdrawals init) 4
       = Some (Wd_points \<lparr>wd_user = 7, wd_channel = 200, wd_current_points = 1000\<rparr>
                 ''Bank'' ''0123456789'' ''A. User'')
   \<and> flows (run (two_withdrawals @ [Message 7 200 ''1000'' (Some 1000)]) init) 4
       = Some (Wd_debit \<lparr>wd_user = 7, wd_channel = 200, wd_current_points = 1000\<rparr>
                 ''Bank'' ''0123456789'' ''A. User'' 1000)
   \<and> get_user_points (st_db (run (two_withdrawals @
         [Message 7 200 ''1000'' (Some 1000), Advance 4 12 False 0 [], Advance 4 13 False 0 []]) init)) 7 = - 1000
   \<and> map w_points (withdrawals (st_db (run (two_withdrawals @
         [Message 7 200 ''1000'' (Some 1000), Advance 4 12 False 0 [], Advance 4 13 False 0 []]) init))) = [1000, 1000]"
  by (simp add: run_defs)

text \<open>What the validation does with the value the flow holds: an amount is accepted
  exactly when \<open>int\<close> gives a number that is at least 1000 and at most \<open>current_points\<close>; any other
  answer ends the flow with its reply and without a write. With 1200 points, 1500 is
  refused.\<close>

lemma validate_amount_accepts:
  "validate_amount parsed current_points = Inr p
     \<longleftrightarrow> parsed = Some p \<and> 1000 \<le> p \<and> p \<le> current_points"
  by (auto simp: validate_amount_def split: option.splits)

lemma refused_amount_writes_nothing:
  assumes "flows s f = Some (Wd_points w bank num name)"
      and "validate_amount parsed (wd_current_points w) = Inl e"
  shows "st_db (step (Message (wd_user w) (wd_channel w) content parsed) s) = st_db s
       \<and> flows (step (Message (wd_user w) (wd_channel w) content parsed) s) f = None
       \<and> replies (step (Message (wd_user w) (wd_channel w) content parsed) s) f
           = replies s f @ [e]"
  using assms by (simp add: message_def)

lemma withdraw_1500_of_1200:
  "validate_amount (Some 1500) 1200 = Inl (Only_have 1200)
   \<and> get_user_points (st_db (run (withdrawal_at_amount @ [Message 7 100 ''1500'' (Some 1500)]) init)) 7 = 1200
   \<and> withdrawals (st_db (run (withdrawal_at_amount @ [Message 7 100 ''1500'' (Some 1500)]) init)) = []
   \<and> flows (run (withdrawal_at_amount @ [Message 7 100 ''1500'' (Some 1500)]) init) 3 = None
   \<and> replies (run (withdrawal_at_amount @ [Message 7 100 ''1500'' (Some 1500)]) init) 3 = [Only_have 1200]"
  by (simp add: run_defs)

section \<open>Submission intake\<close>




text \<open>Two flows that both pass the capacity test before either inserts fill the last
  slot twice: the capacity test is not repeated at the insert.\<close>

lemma last_slot_taken_twice:
  "map t_max_submissions (tasks (st_db (run last_slot_twice init))) = [1]
   \<and> count_done (st_db (run last_slot_twice init)) 1 = 2"
  by (simp add: run_defs)

text \<open>
  C5. The claim: no interleaving of submission flows produces two rows for one user and
  quest. The duplicate test runs before the wait for the proof and the insert after it,
  and the table has no unique constraint. In the run \<open>two_channels\<close> user 7 clicks the
  quest on two boards 11 seconds apart; both flows pass the duplicate test while there is
  no row, and both insert.
\<close>

theorem two_rows_for_one_pair:
  "rows_of (st_db (run two_channels init)) 7 1
     = [\<lparr>s_id = 1, s_user_id = 7, s_task_id = 1, s_proof = ''https://x.com/p'',
         s_status = ''pending'', s_created_at = 8, s_reviewed_at = None\<rparr>,
        \<lparr>s_id = 2, s_user_id = 7, s_task_id = 1, s_proof = ''https://x.com/q'',
         s_status = ''pending'', s_created_at = 12, s_reviewed_at = None\<rparr>]"
  by (simp add: run_defs)

text \<open>
  C8. Every flow that waits for a message (the proof wait of \<open>task_cb\<close>, the four field
  waits of \<open>withdraw_cb\<close>) has a timeout step; it ends the flow with the timeout reply
  and leaves the store as it is. No step that brings a flow to a point before its first
  write (from the click to a wait) writes to the store, so a flow that times out has
  written nothing.
\<close>

theorem timeout_aborts_without_writes:
  assumes "flows s fid = Some f" and "awaiting_input f"
  shows "flows (step (Timeout fid) s) fid = None
       \<and> st_db (step (Timeout fid) s) = st_db s
       \<and> replies (step (Timeout fid) s) fid = replies s fid @ [timeout_reply f]
       \<and> (\<forall>e s0 g. flows (step e s0) fid = Some g \<and> before_commit g \<and> flows s0 fid \<noteq> Some g
             \<longrightarrow> st_db (step e s0) = st_db s0)"
  using assms step_before_commit
  by (auto simp: timeout_def finish_def say_def)

text \<open>Witness for C8: user 7 waiting for the proof, user 7 waiting for the amount, and the step
  that brings the intake flow to its wait.\<close>

theorem timeout_aborts_without_writes_witness:
  "(flows (run (intake_until_wait 200 1) init) 1 = Some (Tc_await_proof (quest_7 1))
     \<and> awaiting_input (Tc_await_proof (quest_7 1)))
   \<and> flows (step (Timeout 1) (run (intake_until_wait 200 1) init)) 1 = None
   \<and> st_db (step (Timeout 1) (run (intake_until_wait 200 1) init))
       = st_db (run (intake_until_wait 200 1) init)
   \<and> submissions (st_db (run (intake_until_wait 200 1) init)) = []
   \<and> (flows (run withdrawal_at_amount init) 3
         = Some (Wd_points \<lparr>wd_user = 7, wd_channel = 100, wd_current_points = 1200\<rparr>
                   ''Bank'' ''0123456789'' ''A. User'')
     \<and> awaiting_input (Wd_points \<lparr>wd_user = 7, wd_channel = 100, wd_current_points = 1200\<rparr>
                   ''Bank'' ''0123456789'' ''A. User''))
   \<and> flows (step (Timeout 3) (run withdrawal_at_amount init)) 3 = None
   \<and> st_db (step (Timeout 3) (run withdrawal_at_amount init)) = st_db (run withdrawal_at_amount init)
   \<and> get_user_points (st_db (run withdrawal_at_amount init)) 7 = 1200
   \<and> withdrawals (st_db (run withdrawal_at_amount init)) = []
   \<and> (flows (step (Advance 1 2 False 0 []) (run (butlast (intake_until_wait 200 1)) init)) 1
         = Some (Tc_await_proof (quest_7 1))
     \<and> before_commit (Tc_await_proof (quest_7 1))
     \<and> flows (run (butlast (intake_until_wait 200 1)) init) 1 \<noteq> Some (Tc_await_proof (quest_7 1)))
   \<and> st_db (step (Advance 1 2 False 0 []) (run (butlast (intake_until_wait 200 1)) init))
       = st_db (run (butlast (intake_until_wait 200 1)) init)"
proof -
  let ?w = "Wd_points \<lparr>wd_user = 7, wd_channel = 100, wd_current_points = 1200\<rparr>
               ''Bank'' ''0123456789'' ''A. User''"
  have a: "flows (run (intake_until_wait 200 1) init) 1 = Some (Tc_await_proof (quest_7 1))
     \<and> awaiting_input (Tc_await_proof (quest_7 1))"
    by (simp add: run_defs)
  have b: "flows (run withdrawal_at_amount init) 3 = Some ?w \<and> awaiting_input ?w"
    by (simp add: run_defs)
  have c: "flows (step (Advance 1 2 False 0 []) (run (butlast (intake_until_wait 200 1)) init)) 1
         = Some (Tc_await_proof (quest_7 1))
     \<and> before_commit (Tc_await_proof (quest_7 1))
     \<and> flows (run (butlast (intake_until_wait 200 1)) init) 1 \<noteq> Some (Tc_await_proof (quest_7 1))"
    by (simp add: run_defs)
  have e: "submissions (st_db (run (intake_until_wait 200 1) init)) = []
     \<and> get_user_points (st_db (run withdrawal_at_amount init)) 7 = 1200
     \<and> withdrawals (st_db (run withdrawal_at_amount init)) = []"
    by (simp add: run_defs)
  note t1 = timeout_aborts_without_writes[where s = "run (intake_until_wait 200 1) init"
      and fid = 1 and f = "Tc_await_proof (quest_7 1)"]
  note t2 = timeout_aborts_without_writes[where s = "run withdrawal_at_amount init"
      and fid = 3 and f = ?w]
  have c1: "flows (step (Timeout 1) (run (intake_until_wait 200 1) init)) 1 = None
     \<and> st_db (step (Timeout 1) (run (intake_until_wait 200 1) init))
         = st_db (run (intake_until_wait 200 1) init)"
    using t1 a by blast
  have c2: "flows (step (Timeout 3) (run withdrawal_at_amount init)) 3 = None
     \<and> st_db (step (Timeout 3) (run withdrawal_at_amount init)) = st_db (run withdrawal_at_amount init)"
    using t2 b by blast
  have c3: "st_db (step (Advance 1 2 False 0 []) (run (butlast (intake_until_wait 200 1)) init))
       = st_db (run (butlast (intake_until_wait 200 1)) init)"
    using t1 a c by blast
  show ?thesis using a b c e c1 c2 c3 by blast
qed

text \<open>
  C9, as stated: of two clicks of one user on one quest less than 10 seconds apart the
  second is denied. The window starts at the last click that passed the gate; a denied
  click does not restart it. With clicks at 0, 9 and 12 seconds the second is denied
  and the third, 3 seconds after the second, passes. The denial is one of six messages
  drawn by \<open>random.choice\<close>; the first of them, drawn here, shows no remaining time.
\<close>

theorem cooldown_counterexample:
  "replies (run three_clicks init) 2 = [Cooldown 0 None]
   \<and> flows (run three_clicks init) 2 = None
   \<and> flows (run three_clicks init) 3 = Some (Tc_count (quest_7 5))
   \<and> replies (run three_clicks init) 3 = []
   \<and> last_click (run three_clicks init) (7, 1) = Some 12000000"
  by (simp add: run_defs)

text \<open>
  C9, amended. When a click passes the cooldown gate at time \<open>t1\<close>, then after any run
  of events every click of the same user on the same quest that is not banned and reaches
  the gate at a time less than 10 seconds after \<open>t1\<close> is denied with one of the six
  cooldown messages (two of them show the remaining whole seconds), writes nothing to the
  store and leaves \<open>last_click\<close> as it is. The test and the write of \<open>last_click\<close>
  are one step, so two clicks never both pass on one reading.
\<close>

theorem second_click_within_cooldown_denied:
  assumes first: "flows s f1 = Some (Tc_gate c1 b1)"
      and passed: "flows (step (Advance f1 t1 x1 k1 h1) s) f1 = Some (Tc_count c1)"
      and later: "s' = run es (step (Advance f1 t1 x1 k1 h1) s)"
      and second: "flows s' f2 = Some (Tc_gate c2 False)"
      and same: "tc_user c2 = tc_user c1" "tc_tid c2 = tc_tid c1"
      and near: "t2 - t1 < BUTTON_COOLDOWN * 1000000"
  shows "flows (step (Advance f2 t2 False k2 h2) s') f2 = None
       \<and> st_db (step (Advance f2 t2 False k2 h2) s') = st_db s'
       \<and> last_click (step (Advance f2 t2 False k2 h2) s') = last_click s'
       \<and> (\<exists>t'. t1 \<le> t' \<and> last_click s' (tc_user c1, tc_tid c1) = Some t'
             \<and> replies (step (Advance f2 t2 False k2 h2) s') f2
                 = replies s' f2 @ [cooldown_message k2 (remaining_sec t2 t')])"
proof -
  have rec: "last_click (step (Advance f1 t1 x1 k1 h1) s) (tc_user c1, tc_tid c1) = Some t1"
    using first passed
    by (auto simp: advance_def tc_gate_def goto_def say_def finish_def
          split: if_splits option.splits)
  from run_last_click[OF rec, of es] later obtain t' where
    t': "last_click s' (tc_user c1, tc_tid c1) = Some t'" and le: "t1 \<le> t'" by auto
  have cool: "in_cooldown t2 t'" using near le by (simp add: in_cooldown_def)
  show ?thesis using second same t' le cool
    by (auto simp: advance_def tc_gate_def goto_def say_def finish_def)
qed

text \<open>Witness for C9: two clicks of user 7; the first passes the gate at 0 and goes on, the second
  reaches the gate 2 seconds later and is denied: with the fourth message, 8 seconds remaining;
  with the first, no time shown.\<close>

theorem second_click_within_cooldown_denied_witness:
  "(flows (run both_at_gate init) 1 = Some (Tc_gate (quest_7 5) False)
     \<and> flows (step (Advance 1 0 False 0 []) (run both_at_gate init)) 1 = Some (Tc_count (quest_7 5))
     \<and> flows (run [Advance 1 1 False 0 []] (step (Advance 1 0 False 0 []) (run both_at_gate init))) 2
         = Some (Tc_gate (quest_7 5) False)
     \<and> (2000000::int) - 0 < BUTTON_COOLDOWN * 1000000)
   \<and> flows (step (Advance 2 2000000 False 3 [])
        (run [Advance 1 1 False 0 []] (step (Advance 1 0 False 0 []) (run both_at_gate init)))) 2 = None
   \<and> st_db (step (Advance 2 2000000 False 3 [])
        (run [Advance 1 1 False 0 []] (step (Advance 1 0 False 0 []) (run both_at_gate init))))
       = st_db (run [Advance 1 1 False 0 []] (step (Advance 1 0 False 0 []) (run both_at_gate init)))
   \<and> replies (step (Advance 2 2000000 False 3 [])
        (run [Advance 1 1 False 0 []] (step (Advance 1 0 False 0 []) (run both_at_gate init)))) 2
       = [Cooldown 3 (Some 8)]
   \<and> replies (step (Advance 2 2000000 False 0 [])
        (run [Advance 1 1 False 0 []] (step (Advance 1 0 False 0 []) (run both_at_gate init)))) 2
       = [Cooldown 0 None]"
proof -
  have a: "flows (run both_at_gate init) 1 = Some (Tc_gate (quest_7 5) False)
     \<and> flows (step (Advance 1 0 False 0 []) (run both_at_gate init)) 1 = Some (Tc_count (quest_7 5))
     \<and> flows (run [Advance 1 1 False 0 []] (step (Advance 1 0 False 0 []) (run both_at_gate init))) 2
         = Some (Tc_gate (quest_7 5) False)
     \<and> (2000000::int) - 0 < BUTTON_COOLDOWN * 1000000"
    by (simp add: run_defs)
  note t = second_click_within_cooldown_denied[where s = "run both_at_gate init" and ?f1.0 = 1
      and ?c1.0 = "quest_7 5" and ?b1.0 = False and ?t1.0 = 0 and ?x1.0 = False and ?k1.0 = 0
      and ?h1.0 = "[]"
      and s' = "run [Advance 1 1 False 0 []] (step (Advance 1 0 False 0 []) (run both_at_gate init))"
      and es = "[Advance 1 1 False 0 []]" and ?f2.0 = 2 and ?c2.0 = "quest_7 5" and ?t2.0 = 2000000
      and ?k2.0 = 3 and ?h2.0 = "[]"]
  have c: "flows (step (Advance 2 2000000 False 3 [])
        (run [Advance 1 1 False 0 []] (step (Advance 1 0 False 0 []) (run both_at_gate init)))) 2 = None
   \<and> st_db (step (Advance 2 2000000 False 3 [])
        (run [Advance 1 1 False 0 []] (step (Advance 1 0 False 0 []) (run both_at_gate init))))
       = st_db (run [Advance 1 1 False 0 []] (step (Advance 1 0 False 0 []) (run both_at_gate init)))"
    using t a by blast
  have r: "replies (step (Advance 2 2000000 False 3 [])
        (run [Advance 1 1 False 0 []] (step (Advance 1 0 False 0 []) (run both_at_gate init)))) 2
       = [Cooldown 3 (Some 8)]
     \<and> replies (step (Advance 2 2000000 False 0 [])
        (run [Advance 1 1 False 0 []] (step (Advance 1 0 False 0 []) (run both_at_gate init)))) 2
       = [Cooldown 0 None]"
    by (simp add: run_defs)
  show ?thesis using a c r by blast
qed

section \<open>Points of a user without a row\<close>

text \<open>
  C10. For a user id with no row in \<open>users\<close>, \<open>get_user_points\<close> returns 0; the rank of
  that is the lowest one, and the eligibility test of a withdrawal denies with no write.
\<close>

theorem points_of_unknown_user:
  assumes "uid \<notin> set (map u_user_id (users (st_db s)))"
  shows "get_user_points (st_db s) uid = 0
       \<and> get_rank (get_user_points (st_db s) uid) = Newbie
       \<and> (flows s fid = Some (Wd_get_points uid channel) \<longrightarrow>
            flows (step (Advance fid now False pick heap) s) fid = None
          \<and> st_db (step (Advance fid now False pick heap) s) = st_db s
          \<and> replies (step (Advance fid now False pick heap) s) fid
              = replies s fid @ [Need_1000_points])"
proof -
  have "find (\<lambda>r. u_user_id r = uid) (users (st_db s)) = None"
    using assms by (auto simp: find_None_iff)
  then have z: "get_user_points (st_db s) uid = 0"
    by (simp add: get_user_points_def)
  then show ?thesis
    by (auto simp: get_rank_def advance_def finish_def say_def)
qed

text \<open>Witness for C10: user 7, who has no row, presses Withdraw in the initial state.\<close>

theorem points_of_unknown_user_witness:
  "7 \<notin> set (map u_user_id (users (st_db (run [Withdraw_click 1 7 100] init))))
   \<and> flows (run [Withdraw_click 1 7 100] init) 1 = Some (Wd_get_points 7 100)
   \<and> get_user_points (st_db (run [Withdraw_click 1 7 100] init)) 7 = 0
   \<and> get_rank (get_user_points (st_db (run [Withdraw_click 1 7 100] init)) 7) = Newbie
   \<and> flows (step (Advance 1 0 False 0 []) (run [Withdraw_click 1 7 100] init)) 1 = None
   \<and> st_db (step (Advance 1 0 False 0 []) (run [Withdraw_click 1 7 100] init))
       = st_db (run [Withdraw_click 1 7 100] init)
   \<and> replies (step (Advance 1 0 False 0 []) (run [Withdraw_click 1 7 100] init)) 1
       = replies (run [Withdraw_click 1 7 100] init) 1 @ [Need_1000_points]"
proof -
  have a: "7 \<notin> set (map u_user_id (users (st_db (run [Withdraw_click 1 7 100] init))))
     \<and> flows (run [Withdraw_click 1 7 100] init) 1 = Some (Wd_get_points 7 100)"
    by (simp add: run_defs)
  show ?thesis
    using points_of_unknown_user[where s = "run [Withdraw_click 1 7 100] init" and uid = 7
        and fid = 1 and channel = 100 and now = 0 and pick = 0 and heap = "[]"] a
    by blast
qed

end
